theory Spec2Isabelle
  imports
    Complex_Main
    "HOL-Library.Multiset"
    "HOL-Library.Sublist"
    "HOL-Library.Char_ord"
    "HOL-Library.List_Lexorder"
    "HOL-Library.Product_Lexorder"
begin

section \<open>Data model of the dashboard (src/app.py)\<close>

text \<open>
  A calendar date is the triple (year, month, day); Python compares dates as such triples,
  which is the lexicographic order on the product. A pandas timestamp is a date together
  with a time of day; \<open>.dt.date\<close> projects the date.
\<close>

type_synonym date = "int \<times> int \<times> int"

record timestamp =
  ts_date :: date
  ts_time :: nat

text \<open>
  One row of the CSV file read by \<open>load_data\<close>, with the two date columns already
  parsed. The numeric columns are modelled as exact reals: rounding of binary floating
  point is not part of the model.
\<close>

record csv_row =
  openDate :: timestamp
  closeDate :: timestamp
  type :: string
  symbol :: string
  status :: string
  quantity :: int
  pnl :: real
  returnPct :: real
  daysInTrade :: real
  estimated_delta :: real
  delta_category :: string

text \<open>A row of the data frame \<open>df\<close>: the CSV columns and the two columns \<open>load_data\<close> adds.\<close>

record trade = csv_row +
  winning_trade :: bool
  month :: "int \<times> int"

text \<open>
  A float as the metrics produce it: a number, pandas' NaN (the mean or median of an empty
  series) or \<open>float('inf')\<close>.
\<close>

datatype fl = Num real | NaN | PosInf

subsection \<open>load_data (lines 50-57)\<close>

definition to_period_M :: "timestamp \<Rightarrow> int \<times> int" where
  "to_period_M t = (fst (ts_date t), fst (snd (ts_date t)))"

definition load_row :: "csv_row \<Rightarrow> trade" where
  "load_row r =
     \<lparr> openDate = openDate r, closeDate = closeDate r, type = type r, symbol = symbol r,
       status = status r, quantity = quantity r, pnl = pnl r, returnPct = returnPct r,
       daysInTrade = daysInTrade r, estimated_delta = estimated_delta r,
       delta_category = delta_category r,
       winning_trade = (pnl r > 0), month = to_period_M (openDate r) \<rparr>"

definition load_data :: "csv_row list \<Rightarrow> trade list" where
  "load_data rows = map load_row rows"

subsection \<open>pandas reductions of a numeric series\<close>

text \<open>
  \<open>Series.sum\<close> of an empty series is 0; \<open>Series.mean\<close> and \<open>Series.median\<close> of an
  empty series are NaN (no exception is raised); the median of an even number of values
  is the mean of the two middle ones.
\<close>

definition series_sum :: "real list \<Rightarrow> real" where
  "series_sum vs = sum_list vs"

definition series_mean :: "real list \<Rightarrow> fl" where
  "series_mean vs = (if vs = [] then NaN else Num (sum_list vs / real (length vs)))"

definition series_median :: "real list \<Rightarrow> fl" where
  "series_median vs =
     (if vs = [] then NaN
      else let s = sort vs; n = length vs in
        if odd n then Num (s ! (n div 2))
        else Num ((s ! (n div 2 - 1) + s ! (n div 2)) / 2))"

subsection \<open>Sidebar filters (lines 65-100)\<close>

text \<open>
  The widgets' values: three select boxes whose first option is the literal \<open>'All'\<close>, and
  the date input, which yields a tuple of zero, one or two dates.
\<close>

record criteria =
  selected_strategy :: string
  selected_status :: string
  selected_symbol :: string
  date_range :: "date list"

definition filter_strategy :: "criteria \<Rightarrow> trade list \<Rightarrow> trade list" where
  "filter_strategy c df =
     (if selected_strategy c \<noteq> ''All''
      then filter (\<lambda>r. type r = selected_strategy c) df else df)"

definition filter_status :: "criteria \<Rightarrow> trade list \<Rightarrow> trade list" where
  "filter_status c df =
     (if selected_status c \<noteq> ''All''
      then filter (\<lambda>r. status r = selected_status c) df else df)"

definition filter_symbol :: "criteria \<Rightarrow> trade list \<Rightarrow> trade list" where
  "filter_symbol c df =
     (if selected_symbol c \<noteq> ''All''
      then filter (\<lambda>r. symbol r = selected_symbol c) df else df)"

definition filter_date_range :: "criteria \<Rightarrow> trade list \<Rightarrow> trade list" where
  "filter_date_range c df =
     (if length (date_range c) = 2
      then filter (\<lambda>r. ts_date (openDate r) \<ge> date_range c ! 0
                      \<and> ts_date (openDate r) \<le> date_range c ! 1) df
      else df)"

definition filtered_df :: "criteria \<Rightarrow> trade list \<Rightarrow> trade list" where
  "filtered_df c df =
     filter_date_range c (filter_symbol c (filter_status c (filter_strategy c df)))"

subsection \<open>The filter criteria as the specification words them\<close>

text \<open>
  An absent equality constraint is the select box's \<open>'All'\<close>; an absent date range is a
  date tuple that does not have exactly two bounds.
\<close>

definition constraint_of :: "string \<Rightarrow> string option" where
  "constraint_of s = (if s = ''All'' then None else Some s)"

definition range_of :: "date list \<Rightarrow> (date \<times> date) option" where
  "range_of dr = (if length dr = 2 then Some (dr ! 0, dr ! 1) else None)"

definition matches_eq :: "string option \<Rightarrow> string \<Rightarrow> bool" where
  "matches_eq k v = (case k of None \<Rightarrow> True | Some s \<Rightarrow> v = s)"

definition matches_range :: "(date \<times> date) option \<Rightarrow> timestamp \<Rightarrow> bool" where
  "matches_range k t =
     (case k of None \<Rightarrow> True | Some (lo, hi) \<Rightarrow> lo \<le> ts_date t \<and> ts_date t \<le> hi)"

definition satisfies :: "criteria \<Rightarrow> trade \<Rightarrow> bool" where
  "satisfies c r =
     (matches_eq (constraint_of (selected_strategy c)) (type r)
      \<and> matches_eq (constraint_of (selected_status c)) (status r)
      \<and> matches_eq (constraint_of (selected_symbol c)) (symbol r)
      \<and> matches_range (range_of (date_range c)) (openDate r))"

subsection \<open>Summary metrics (lines 102-111)\<close>

definition total_pnl :: "trade list \<Rightarrow> real" where
  "total_pnl fd = series_sum (map pnl fd)"

definition avg_pnl :: "trade list \<Rightarrow> fl" where
  "avg_pnl fd = series_mean (map pnl fd)"

definition median_pnl :: "trade list \<Rightarrow> fl" where
  "median_pnl fd = series_median (map pnl fd)"

definition win_rate :: "trade list \<Rightarrow> fl" where
  "win_rate fd =
     (if length fd > 0
      then Num (real (length (filter (\<lambda>r. pnl r > 0) fd)) / real (length fd) * 100)
      else Num 0)"

definition total_trades :: "trade list \<Rightarrow> nat" where
  "total_trades fd = length fd"

definition gross_profit :: "trade list \<Rightarrow> real" where
  "gross_profit fd = series_sum (map pnl (filter (\<lambda>r. pnl r > 0) fd))"

definition gross_loss :: "trade list \<Rightarrow> real" where
  "gross_loss fd = \<bar>series_sum (map pnl (filter (\<lambda>r. pnl r < 0) fd))\<bar>"

definition profit_factor :: "trade list \<Rightarrow> fl" where
  "profit_factor fd =
     (if gross_loss fd > 0 then Num (gross_profit fd / gross_loss fd) else PosInf)"

subsection \<open>Best and worst trades (lines 536-538, 554-556)\<close>

text \<open>
  \<open>DataFrame.nlargest(n, 'pnl')\<close> and \<open>nsmallest\<close> with pandas' default
  \<open>keep='first'\<close>: the first \<open>n\<close> rows in descending (ascending) order of the column,
  rows with equal values staying in their original order. pandas negates the column and
  sorts stably, which is what the model does.
\<close>

definition nlargest :: "nat \<Rightarrow> trade list \<Rightarrow> trade list" where
  "nlargest n df = take n (sort_key (\<lambda>r. - pnl r) df)"

definition nsmallest :: "nat \<Rightarrow> trade list \<Rightarrow> trade list" where
  "nsmallest n df = take n (sort_key pnl df)"

text \<open>The seven columns kept for the two tables.\<close>

record ranked_row =
  rk_openDate :: timestamp
  rk_type :: string
  rk_symbol :: string
  rk_status :: string
  rk_pnl :: real
  rk_returnPct :: real
  rk_daysInTrade :: real

definition ranked_cols :: "trade \<Rightarrow> ranked_row" where
  "ranked_cols r =
     \<lparr> rk_openDate = openDate r, rk_type = type r, rk_symbol = symbol r,
       rk_status = status r, rk_pnl = pnl r, rk_returnPct = returnPct r,
       rk_daysInTrade = daysInTrade r \<rparr>"

definition best_trades :: "trade list \<Rightarrow> ranked_row list" where
  "best_trades fd = map ranked_cols (nlargest 10 fd)"

definition worst_trades :: "trade list \<Rightarrow> ranked_row list" where
  "worst_trades fd = map ranked_cols (nsmallest 10 fd)"

subsection \<open>Rounding\<close>

text \<open>
  \<open>.round(d)\<close> of numpy and pandas: scale by \<open>10^d\<close>, round to the nearest integer with
  halves going to the even neighbour, scale back. NaN and infinity stay as they are.
\<close>

definition rint :: "real \<Rightarrow> int" where
  "rint x =
     (let f = \<lfloor>x\<rfloor>; d = x - of_int f in
      if d < 1 / 2 then f else if d > 1 / 2 then f + 1
      else if even f then f else f + 1)"

definition round_dec :: "nat \<Rightarrow> real \<Rightarrow> real" where
  "round_dec d x = of_int (rint (x * 10 ^ d)) / 10 ^ d"

fun round_fl :: "nat \<Rightarrow> fl \<Rightarrow> fl" where
  "round_fl d (Num x) = Num (round_dec d x)"
| "round_fl d NaN = NaN"
| "round_fl d PosInf = PosInf"

fun times100 :: "fl \<Rightarrow> fl" where
  "times100 (Num x) = Num (x * 100)"
| "times100 NaN = NaN"
| "times100 PosInf = PosInf"

subsection \<open>Grouped statistics (lines 284-304, 406-413, 484-491, 596-603, 717-723)\<close>

text \<open>
  \<open>DataFrame.groupby(key)\<close> with the default \<open>sort=True\<close>: one group for every key
  value present, the groups in ascending order of the key, each group's rows in their
  original order. A two-column key is a pair, ordered lexicographically.
\<close>

definition groupby :: "(trade \<Rightarrow> 'k::linorder) \<Rightarrow> trade list \<Rightarrow> ('k \<times> trade list) list" where
  "groupby key df = map (\<lambda>k. (k, filter (\<lambda>r. key r = k) df)) (sort (remdups (map key df)))"

text \<open>
  \<open>sort_values(col, ascending=False)\<close>: pandas reverses the rows, sorts ascending and
  reverses the result. Its default sorting algorithm promises no order among rows with
  equal keys; the model fixes one (the stable one), and no theorem below reads it.
\<close>

definition sort_values :: "('a \<Rightarrow> 'k::linorder) \<Rightarrow> bool \<Rightarrow> 'a list \<Rightarrow> 'a list" where
  "sort_values key ascending xs =
     (if ascending then sort_key key xs else rev (sort_key key (rev xs)))"

record stats =
  Total_PnL :: real
  Avg_PnL :: fl
  Trades :: nat
  Win_Rate :: fl

record status_row = stats +
  Median_PnL :: fl
  Avg_Days :: fl

record strategy_agg_row = status_row +
  Avg_Return :: fl

record strategy_row = strategy_agg_row +
  Profit_Factor :: fl

definition bool_mean :: "bool list \<Rightarrow> fl" where
  "bool_mean bs = series_mean (map of_bool bs)"

definition agg_total :: "trade list \<Rightarrow> real" where
  "agg_total g = round_dec 2 (series_sum (map pnl g))"

definition agg_avg :: "trade list \<Rightarrow> fl" where
  "agg_avg g = round_fl 2 (series_mean (map pnl g))"

definition agg_median :: "trade list \<Rightarrow> fl" where
  "agg_median g = round_fl 2 (series_median (map pnl g))"

definition agg_win_rate :: "trade list \<Rightarrow> fl" where
  "agg_win_rate g = round_fl 1 (times100 (round_fl 2 (bool_mean (map winning_trade g))))"

definition agg_stats :: "trade list \<Rightarrow> stats" where
  "agg_stats g =
     \<lparr> Total_PnL = agg_total g, Avg_PnL = agg_avg g, Trades = length g,
       Win_Rate = agg_win_rate g \<rparr>"

definition agg_status :: "trade list \<Rightarrow> status_row" where
  "agg_status g =
     \<lparr> Total_PnL = agg_total g, Avg_PnL = agg_avg g, Trades = length g,
       Win_Rate = agg_win_rate g, Median_PnL = agg_median g,
       Avg_Days = round_fl 2 (series_mean (map daysInTrade g)) \<rparr>"

definition agg_strategy :: "trade list \<Rightarrow> strategy_agg_row" where
  "agg_strategy g =
     \<lparr> Total_PnL = agg_total g, Avg_PnL = agg_avg g, Trades = length g,
       Win_Rate = agg_win_rate g, Median_PnL = agg_median g,
       Avg_Days = round_fl 2 (series_mean (map daysInTrade g)),
       Avg_Return = round_fl 2 (series_mean (map returnPct g)) \<rparr>"

text \<open>Lines 284-293: the strategy table, sorted by \<open>Total_PnL\<close>, largest first.\<close>

definition strategy_sorted :: "trade list \<Rightarrow> (string \<times> strategy_agg_row) list" where
  "strategy_sorted fd =
     sort_values (\<lambda>kr. Total_PnL (snd kr)) False
       (map (\<lambda>kg. (fst kg, agg_strategy (snd kg))) (groupby type fd))"

text \<open>Lines 295-304: the profit factor of every strategy of the sorted table, appended as a column.\<close>

definition strategy_profit_factor :: "trade list \<Rightarrow> string \<Rightarrow> fl" where
  "strategy_profit_factor fd strategy =
     (let strategy_trades = filter (\<lambda>r. type r = strategy) fd;
          gp = series_sum (map pnl (filter (\<lambda>r. pnl r > 0) strategy_trades));
          gl = \<bar>series_sum (map pnl (filter (\<lambda>r. pnl r < 0) strategy_trades))\<bar>
      in if gl > 0 then Num (gp / gl) else PosInf)"

definition strategy_stats :: "trade list \<Rightarrow> (string \<times> strategy_row) list" where
  "strategy_stats fd =
     map (\<lambda>kr. (fst kr,
            \<lparr> Total_PnL = Total_PnL (snd kr), Avg_PnL = Avg_PnL (snd kr),
              Trades = Trades (snd kr), Win_Rate = Win_Rate (snd kr),
              Median_PnL = Median_PnL (snd kr), Avg_Days = Avg_Days (snd kr),
              Avg_Return = Avg_Return (snd kr),
              Profit_Factor = strategy_profit_factor fd (fst kr) \<rparr>))
       (strategy_sorted fd)"

text \<open>Lines 406-413: the status table, left in the order \<open>groupby\<close> produces.\<close>

definition status_stats :: "trade list \<Rightarrow> (string \<times> status_row) list" where
  "status_stats fd = map (\<lambda>kg. (fst kg, agg_status (snd kg))) (groupby status fd)"

text \<open>Lines 484-491: strategy and status together, left in the order \<open>groupby\<close> produces.\<close>

definition status_strategy :: "trade list \<Rightarrow> ((string \<times> string) \<times> stats) list" where
  "status_strategy fd =
     map (\<lambda>kg. (fst kg, agg_stats (snd kg))) (groupby (\<lambda>r. (type r, status r)) fd)"

text \<open>Lines 596-603: the symbol table, sorted by \<open>Total_PnL\<close>, largest first.\<close>

definition symbol_stats :: "trade list \<Rightarrow> (string \<times> stats) list" where
  "symbol_stats fd =
     sort_values (\<lambda>kr. Total_PnL (snd kr)) False
       (map (\<lambda>kg. (fst kg, agg_stats (snd kg))) (groupby symbol fd))"

text \<open>Lines 717-723: the delta category table, left in the order \<open>groupby\<close> produces.\<close>

definition delta_perf :: "trade list \<Rightarrow> (string \<times> stats) list" where
  "delta_perf fd = map (\<lambda>kg. (fst kg, agg_stats (snd kg))) (groupby delta_category fd)"

text \<open>Descending order of a table's \<open>Total_PnL\<close> column.\<close>

definition descending_total :: "('k \<times> ('m stats_scheme)) list \<Rightarrow> bool" where
  "descending_total tbl = sorted (rev (map (\<lambda>kr. Total_PnL (snd kr)) tbl))"

subsection \<open>Portfolio bias (lines 642-655)\<close>

definition total_delta :: "trade list \<Rightarrow> real" where
  "total_delta fd = series_sum (map estimated_delta fd)"

definition avg_delta :: "trade list \<Rightarrow> fl" where
  "avg_delta fd = series_mean (map estimated_delta fd)"

definition bias :: "trade list \<Rightarrow> string" where
  "bias fd =
     (if total_delta fd > 50 then ''Bullish''
      else if total_delta fd < - 50 then ''Bearish'' else ''Neutral'')"

text \<open>
  The classification as the specification words it, with the threshold as a parameter of
  the rule.
\<close>

definition bias_with_threshold :: "real \<Rightarrow> real \<Rightarrow> string" where
  "bias_with_threshold t total_d =
     (if total_d > t then ''Bullish'' else if total_d < - t then ''Bearish'' else ''Neutral'')"

subsection \<open>Trade log and CSV export (lines 743-784)\<close>










subsection \<open>Example data\<close>

definition mk_row :: "string \<Rightarrow> string \<Rightarrow> string \<Rightarrow> date \<Rightarrow> real \<Rightarrow> csv_row" where
  "mk_row ty sy st d p =
     \<lparr> openDate = \<lparr> ts_date = d, ts_time = 34200 \<rparr>,
       closeDate = \<lparr> ts_date = d, ts_time = 57600 \<rparr>,
       type = ty, symbol = sy, status = st, quantity = 1, pnl = p,
       returnPct = 12 / 100, daysInTrade = 5, estimated_delta = 30,
       delta_category = ''Bullish'' \<rparr>"

definition ex_rows :: "csv_row list" where
  "ex_rows =
     [ mk_row ''Iron Condor'' ''SPY'' ''closed'' (2024, 3, 1) 100,
       mk_row ''Short Put Spread'' ''QQQ'' ''expired'' (2024, 3, 5) (- 50),
       mk_row ''Iron Condor'' ''SPY'' ''closed'' (2024, 4, 2) 200,
       mk_row ''Short Put Spread'' ''IWM'' ''expired'' (2024, 4, 9) (- 20) ]"

definition ex_store :: "trade list" where
  "ex_store = load_data ex_rows"

definition no_filter :: criteria where
  "no_filter =
     \<lparr> selected_strategy = ''All'', selected_status = ''All'', selected_symbol = ''All'',
       date_range = [(2024, 3, 1), (2024, 4, 9)] \<rparr>"

definition closed_only :: criteria where
  "closed_only = no_filter \<lparr> selected_status := ''closed'' \<rparr>"

definition march_spy :: criteria where
  "march_spy =
     \<lparr> selected_strategy = ''Iron Condor'', selected_status = ''All'', selected_symbol = ''SPY'',
       date_range = [(2024, 3, 1), (2024, 3, 31)] \<rparr>"

definition reversed_range :: criteria where
  "reversed_range = no_filter \<lparr> date_range := [(2024, 4, 9), (2024, 3, 1)] \<rparr>"

definition symbol_zzz :: criteria where
  "symbol_zzz = no_filter \<lparr> selected_symbol := ''ZZZ'' \<rparr>"

text \<open>Two trades: the losing one comes first in every key order.\<close>

definition ex_rows2 :: "csv_row list" where
  "ex_rows2 =
     [ (mk_row ''Iron Condor'' ''SPY'' ''closed'' (2024, 3, 1) (- 50))
         \<lparr> delta_category := ''Bearish'' \<rparr>,
       mk_row ''Short Put Spread'' ''QQQ'' ''expired'' (2024, 3, 5) 100 ]"

definition ex_store2 :: "trade list" where
  "ex_store2 = load_data ex_rows2"

text \<open>Twenty trades, opened on twenty days, with equal profits among them.\<close>

definition ex_days_pnls20 :: "(int \<times> real) list" where
  "ex_days_pnls20 =
     [(1, 5), (2, - 3), (3, 12), (4, 7), (5, 7), (6, - 8), (7, 0), (8, 21), (9, - 15),
      (10, 4), (11, 9), (12, - 1), (13, 30), (14, 2), (15, - 6), (16, 14), (17, 7),
      (18, - 20), (19, 11), (20, 3)]"

definition ex_store20 :: "trade list" where
  "ex_store20 =
     load_data (map (\<lambda>dp. mk_row ''Iron Condor'' ''SPY'' ''closed'' (2024, 3, fst dp) (snd dp))
       ex_days_pnls20)"

definition open_day :: "trade \<Rightarrow> int" where
  "open_day r = snd (snd (ts_date (openDate r)))"


lemmas ex_defs =
  ex_store_def ex_rows_def load_data_def load_row_def mk_row_def no_filter_def
  closed_only_def march_spy_def reversed_range_def symbol_zzz_def
  filtered_df_def filter_date_range_def filter_symbol_def filter_status_def
  filter_strategy_def

lemmas ex20_defs = ex_store20_def ex_days_pnls20_def load_data_def load_row_def mk_row_def

lemmas ex2_defs = ex_store2_def ex_rows2_def load_data_def load_row_def mk_row_def

lemmas agg_defs = agg_stats_def agg_status_def agg_total_def series_sum_def round_dec_def
  rint_def Let_def

section \<open>Summary metrics\<close>

lemma sum_list_neg_le: "(\<forall>v \<in> set vs. v < (0::real)) \<Longrightarrow> sum_list vs \<le> 0"
  by (induction vs) auto

lemma sum_list_neg_zero_iff:
  "(\<forall>v \<in> set vs. v < (0::real)) \<Longrightarrow> sum_list vs = 0 \<longleftrightarrow> vs = []"
proof (induction vs)
  case Nil
  then show ?case by simp
next
  case (Cons v vs)
  then have "v < 0" and "sum_list vs \<le> 0"
    by (simp_all add: sum_list_neg_le)
  then show ?case by simp
qed




lemma gross_loss_zero_iff: "gross_loss fd = 0 \<longleftrightarrow> (\<forall>r \<in> set fd. \<not> pnl r < 0)"
proof -
  have "sum_list (map pnl (filter (\<lambda>r. pnl r < 0) fd)) = 0
        \<longleftrightarrow> map pnl (filter (\<lambda>r. pnl r < 0) fd) = []"
    by (rule sum_list_neg_zero_iff) auto
  then show ?thesis
    by (auto simp: gross_loss_def series_sum_def filter_empty_conv)
qed


text \<open>
  Claim C2. When \<open>gross_loss\<close> is 0, which is exactly when no row has a negative
  \<open>pnl\<close>, \<open>profit_factor\<close> is positive infinity, whatever \<open>gross_profit\<close> is (0
  included); when \<open>gross_loss\<close> is positive, \<open>profit_factor\<close> is
  \<open>gross_profit / gross_loss\<close>.
\<close>

theorem profit_factor_cases:
  "(gross_loss fd = 0 \<longrightarrow> profit_factor fd = PosInf)
   \<and> (gross_loss fd > 0 \<longrightarrow> profit_factor fd = Num (gross_profit fd / gross_loss fd))
   \<and> (gross_loss fd = 0 \<longleftrightarrow> (\<forall>r \<in> set fd. \<not> pnl r < 0))
   \<and> gross_profit fd = sum_list (map pnl (filter (\<lambda>r. pnl r > 0) fd))
   \<and> gross_loss fd = \<bar>sum_list (map pnl (filter (\<lambda>r. pnl r < 0) fd))\<bar>"
  using gross_loss_zero_iff [of fd]
  by (simp add: profit_factor_def gross_profit_def gross_loss_def series_sum_def)

theorem profit_factor_cases_witness:
  "gross_loss (filtered_df closed_only ex_store) = 0
   \<and> gross_profit (filtered_df closed_only ex_store) = 300
   \<and> profit_factor (filtered_df closed_only ex_store) = PosInf
   \<and> gross_loss ex_store = 70 \<and> gross_profit ex_store = 300
   \<and> profit_factor ex_store = Num (300 / 70)
   \<and> gross_loss [] = 0 \<and> gross_profit [] = 0 \<and> profit_factor [] = PosInf"
  using profit_factor_cases [of "filtered_df closed_only ex_store"]
    profit_factor_cases [of ex_store] profit_factor_cases [of "[]"]
  by (simp add: ex_defs gross_loss_def gross_profit_def series_sum_def)

text \<open>
  Claim C1, as the specification states it: on an empty subset \<open>avg_pnl\<close>,
  \<open>median_pnl\<close>, \<open>win_rate\<close> and \<open>profit_factor\<close> are all a "no data" value. The
  code's guard gives \<open>win_rate\<close> the number 0 there, and \<open>profit_factor\<close> is infinity:
  neither is NaN. The subset is the one no trade of the example store with symbol
  \<open>ZZZ\<close> belongs to.
\<close>

theorem empty_subset_metrics_counterexample:
  "filtered_df symbol_zzz ex_store = []
   \<and> win_rate (filtered_df symbol_zzz ex_store) = Num 0
   \<and> win_rate (filtered_df symbol_zzz ex_store) \<noteq> NaN
   \<and> profit_factor (filtered_df symbol_zzz ex_store) = PosInf
   \<and> profit_factor (filtered_df symbol_zzz ex_store) \<noteq> NaN"
  by (simp add: ex_defs win_rate_def profit_factor_def gross_loss_def series_sum_def)

text \<open>
  Claim C1, amended. On an empty subset nothing is divided by zero and nothing is raised:
  \<open>total_trades\<close> is 0, \<open>total_pnl\<close> is 0, \<open>avg_pnl\<close> and \<open>median_pnl\<close> are NaN
  (no data), \<open>win_rate\<close> is the number 0 and \<open>profit_factor\<close> is positive infinity.
\<close>

theorem empty_subset_metrics:
  "filtered_df c df = [] \<Longrightarrow>
     total_trades (filtered_df c df) = 0 \<and> total_pnl (filtered_df c df) = 0
     \<and> avg_pnl (filtered_df c df) = NaN \<and> median_pnl (filtered_df c df) = NaN
     \<and> win_rate (filtered_df c df) = Num 0 \<and> profit_factor (filtered_df c df) = PosInf"
  by (simp add: total_trades_def total_pnl_def avg_pnl_def median_pnl_def win_rate_def
      profit_factor_def gross_loss_def series_sum_def series_mean_def series_median_def)

theorem empty_subset_metrics_witness:
  "filtered_df symbol_zzz ex_store = []
   \<and> total_trades (filtered_df symbol_zzz ex_store) = 0
   \<and> total_pnl (filtered_df symbol_zzz ex_store) = 0
   \<and> avg_pnl (filtered_df symbol_zzz ex_store) = NaN
   \<and> median_pnl (filtered_df symbol_zzz ex_store) = NaN
   \<and> win_rate (filtered_df symbol_zzz ex_store) = Num 0
   \<and> profit_factor (filtered_df symbol_zzz ex_store) = PosInf"
proof -
  have e: "filtered_df symbol_zzz ex_store = []"
    by (simp add: ex_defs)
  show ?thesis
    using e empty_subset_metrics [OF e] by simp
qed

section \<open>Filters\<close>

lemma count_list_filter:
  "count_list (filter P xs) r = (if P r then count_list xs r else 0)"
  by (induction xs) auto

lemma filtered_df_eq_filter: "filtered_df c store = filter (satisfies c) store"
proof -
  have "filter_strategy c xs =
      filter (\<lambda>r. matches_eq (constraint_of (selected_strategy c)) (type r)) xs" for xs
    by (simp add: filter_strategy_def matches_eq_def constraint_of_def)
  moreover have "filter_status c xs =
      filter (\<lambda>r. matches_eq (constraint_of (selected_status c)) (status r)) xs" for xs
    by (simp add: filter_status_def matches_eq_def constraint_of_def)
  moreover have "filter_symbol c xs =
      filter (\<lambda>r. matches_eq (constraint_of (selected_symbol c)) (symbol r)) xs" for xs
    by (simp add: filter_symbol_def matches_eq_def constraint_of_def)
  moreover have "filter_date_range c xs =
      filter (\<lambda>r. matches_range (range_of (date_range c)) (openDate r)) xs" for xs
    by (simp add: filter_date_range_def matches_range_def range_of_def)
  ultimately have "filtered_df c store =
      filter (\<lambda>r. matches_eq (constraint_of (selected_strategy c)) (type r)
        \<and> matches_eq (constraint_of (selected_status c)) (status r)
        \<and> matches_eq (constraint_of (selected_symbol c)) (symbol r)
        \<and> matches_range (range_of (date_range c)) (openDate r)) store"
    by (simp add: filtered_df_def conj_commute conj_left_commute)
  also have "\<dots> = filter (satisfies c) store"
    by (rule filter_cong) (simp_all add: satisfies_def)
  finally show ?thesis .
qed

text \<open>
  Claim C3. For every store and every criteria, the filtered frame is the store's rows
  that satisfy all the constraints (exact equality on strategy, status and symbol where
  one is chosen, the open date's day within the inclusive range where the range has two
  bounds), each as often as in the store and in the store's order. A select box set to
  \<open>'All'\<close> is the absent constraint, so no criteria asks for the value \<open>'All'\<close> itself.
\<close>

theorem filter_soundness:
  "filtered_df c store = filter (satisfies c) store
   \<and> subseq (filtered_df c store) store
   \<and> (\<forall>r. r \<in> set (filtered_df c store) \<longleftrightarrow> r \<in> set store \<and> satisfies c r)
   \<and> (\<forall>r. count_list (filtered_df c store) r = (if satisfies c r then count_list store r else 0))"
  by (simp add: filtered_df_eq_filter count_list_filter)

theorem filter_soundness_witness:
  "filtered_df march_spy ex_store = [ex_store ! 0]
   \<and> filter (satisfies march_spy) ex_store = [ex_store ! 0]
   \<and> subseq [ex_store ! 0] ex_store
   \<and> satisfies march_spy (ex_store ! 0) \<and> \<not> satisfies march_spy (ex_store ! 2)
   \<and> count_list (filtered_df march_spy ex_store) (ex_store ! 0) = 1
   \<and> count_list (filtered_df march_spy ex_store) (ex_store ! 2) = 0"
  using filter_soundness [of march_spy ex_store]
  by (simp add: ex_defs satisfies_def matches_eq_def matches_range_def
      constraint_of_def range_of_def)

text \<open>
  Claim C9. A date range of two bounds whose first bound is later than its second
  leaves no row: the filtered frame is empty, for every store and whatever the other
  three filters are.
\<close>

theorem reversed_range_empty:
  "length (date_range c) = 2 \<Longrightarrow> date_range c ! 0 > date_range c ! 1 \<Longrightarrow> filtered_df c store = []"
  by (auto simp: filtered_df_def filter_date_range_def filter_empty_conv)

theorem reversed_range_empty_witness:
  "length (date_range reversed_range) = 2
   \<and> date_range reversed_range ! 0 > date_range reversed_range ! 1
   \<and> ex_store \<noteq> []
   \<and> filtered_df reversed_range ex_store = []"
  using reversed_range_empty [of reversed_range ex_store]
  by (simp add: reversed_range_def no_filter_def ex_store_def ex_rows_def load_data_def)

section \<open>Best and worst trades\<close>

lemma sorted_take_drop_le:
  assumes "sorted (map f s)" "x \<in> set (take n s)" "y \<in> set (drop n s)"
  shows "f x \<le> f y"
proof -
  have "sorted (map f (take n s) @ map f (drop n s))"
    using assms(1) by (simp flip: map_append)
  then show ?thesis
    using assms(2,3) by (auto simp: sorted_append)
qed

lemma mset_minus_take: "mset s - mset (take n s) = mset (drop n s)"
proof -
  have "mset s = mset (take n s) + mset (drop n s)"
    by (simp flip: mset_append)
  then show ?thesis by simp
qed

lemma take_sort_key_length: "length (take n (sort_key f xs)) = min n (length xs)"
  by simp

lemma take_sort_key_sorted: "sorted (map f (take n (sort_key f xs)))"
  by (simp add: sorted_wrt_take flip: take_map)

lemma take_sort_key_subset: "mset (take n (sort_key f xs)) \<subseteq># mset xs"
proof -
  have "mset (take n (sort_key f xs)) \<subseteq># mset (sort_key f xs)"
    by (metis append_take_drop_id mset_append mset_subset_eq_add_left)
  then show ?thesis by simp
qed

lemma take_sort_key_rest:
  assumes "x \<in># mset xs - mset (take n (sort_key f xs))" "y \<in> set (take n (sort_key f xs))"
  shows "f y \<le> f x"
proof -
  have "mset xs - mset (take n (sort_key f xs)) = mset (drop n (sort_key f xs))"
    using mset_minus_take [of "sort_key f xs" n] by simp
  then have "x \<in> set (drop n (sort_key f xs))"
    using assms(1) by simp
  then show ?thesis
    using sorted_take_drop_le [of f "sort_key f xs" y n x] assms(2) by simp
qed

lemma take_sort_key_ties:
  "prefix (filter (\<lambda>r. f r = k) (take n (sort_key f xs))) (filter (\<lambda>r. f r = k) xs)"
proof -
  have "prefix (filter (\<lambda>r. f r = k) (take n (sort_key f xs))) (filter (\<lambda>r. f r = k) (sort_key f xs))"
    by (rule filter_mono_prefix) (rule take_is_prefix)
  then show ?thesis
    by (simp add: sort_key_stable)
qed

lemma take_sort_key_all: "length xs \<le> n \<Longrightarrow> mset (take n (sort_key f xs)) = mset xs"
  by simp

lemma sorted_map_uminus: "sorted (map uminus ys) \<longleftrightarrow> sorted (rev ys)" for ys :: "real list"
  by (simp add: sorted_wrt_map sorted_wrt_rev)

lemma desc_values: "map pnl (sort_key (\<lambda>r. - pnl r) fd) = rev (sort (map pnl fd))"
proof -
  let ?t = "sort_key (\<lambda>r. - pnl r) fd"
  have "sorted (map (\<lambda>r. - pnl r) ?t)"
    by (rule sorted_sort_key)
  then have "sorted (map uminus (map pnl ?t))"
    by (simp add: comp_def)
  then have "sorted (rev (map pnl ?t))"
    by (simp only: sorted_map_uminus)
  moreover have "mset (rev (map pnl ?t)) = mset (map pnl fd)"
    by simp
  ultimately have "sort (map pnl fd) = rev (map pnl ?t)"
    by (rule properties_for_sort [rotated])
  then show ?thesis by simp
qed

lemma asc_values: "map pnl (sort_key pnl fd) = sort (map pnl fd)"
proof -
  have "sorted (map pnl (sort_key pnl fd))"
    by (rule sorted_sort_key)
  moreover have "mset (map pnl (sort_key pnl fd)) = mset (map pnl fd)"
    by simp
  ultimately show ?thesis
    by (metis properties_for_sort)
qed

lemma best_ge_worst:
  assumes "2 * n \<le> length fd" "b \<in> set (nlargest n fd)" "w \<in> set (nsmallest n fd)"
  shows "pnl w \<le> pnl b"
proof -
  let ?A = "sort (map pnl fd)"
  let ?k = "length fd - n"
  have mb: "map pnl (nlargest n fd) = take n (rev ?A)"
    unfolding nlargest_def take_map [symmetric] desc_values ..
  have mw: "map pnl (nsmallest n fd) = take n ?A"
    unfolding nsmallest_def take_map [symmetric] asc_values ..
  have "pnl b \<in> set (map pnl (nlargest n fd))"
    using assms(2) by simp
  then have "pnl b \<in> set (rev (drop ?k ?A))"
    unfolding mb take_rev by simp
  then have b: "pnl b \<in> set (drop ?k ?A)"
    by simp
  have "pnl w \<in> set (map pnl (nsmallest n fd))"
    using assms(3) by simp
  then have w0: "pnl w \<in> set (take n ?A)"
    unfolding mw .
  have "n \<le> ?k" using assms(1) by simp
  then have "set (take n ?A) \<subseteq> set (take ?k ?A)"
    by (rule set_take_subset_set_take)
  with w0 have w: "pnl w \<in> set (take ?k ?A)" ..
  have "sorted (map id ?A)" by simp
  from sorted_take_drop_le [OF this w b] show ?thesis by simp
qed



lemma ex4_best: "nlargest 2 ex_store = [ex_store ! 2, ex_store ! 0]"
  by (simp add: nlargest_def ex_store_def ex_rows_def load_data_def load_row_def mk_row_def)

lemma ex4_rest: "ex_store ! 1 \<in># mset ex_store - mset (nlargest 2 ex_store)"
  unfolding ex4_best
  by (simp add: ex_store_def ex_rows_def load_data_def load_row_def mk_row_def)

lemma ex4_all: "map pnl (nlargest 10 ex_store) = [200, 100, - 20, - 50]"
  by (simp add: nlargest_def ex_store_def ex_rows_def load_data_def load_row_def mk_row_def)

lemma ex4_pnl: "pnl (ex_store ! 1) = - 50" "pnl (ex_store ! 2) = 200" "length ex_store = 4"
  by (simp_all add: ex_store_def ex_rows_def load_data_def load_row_def mk_row_def)

lemma ex20_sevens:
  "map open_day (filter (\<lambda>r. pnl r = 7) (nlargest 8 ex_store20)) = [4, 5]"
  "map open_day (filter (\<lambda>r. pnl r = 7) ex_store20) = [4, 5, 17]"
  "map pnl (nlargest 8 ex_store20) = [30, 21, 14, 12, 11, 9, 7, 7]"
  by (simp_all add: nlargest_def ex20_defs open_day_def)

lemma ex20_best: "map pnl (nlargest 10 ex_store20) = [30, 21, 14, 12, 11, 9, 7, 7, 7, 5]"
  by (simp add: nlargest_def ex_store20_def ex_days_pnls20_def load_data_def load_row_def mk_row_def)

lemma ex20_worst: "map pnl (nsmallest 10 ex_store20) = [-20, -15, -8, -6, -3, -1, 0, 2, 3, 4]"
  by (simp add: nsmallest_def ex_store20_def ex_days_pnls20_def load_data_def load_row_def mk_row_def)

text \<open>
  Claim C4. \<open>nlargest n\<close> (best) and \<open>nsmallest n\<close> (worst) return \<open>min n |subset|\<close>
  rows, at most \<open>n\<close>: a part of the subset, in descending (ascending) order of \<open>pnl\<close>,
  such that no row left out has a larger (smaller) \<open>pnl\<close> than a row returned. Among
  rows of equal \<open>pnl\<close> the returned ones are the first of the subset, in the subset's
  order. When the subset has at most \<open>n\<close> rows all of them are returned. The result is
  a function of the subset and \<open>n\<close>, so two calls agree. The dashboard's two tables
  are the instances \<open>n = 10\<close>.
\<close>

theorem top_n_by_pnl:
  "length (nlargest n fd) = min n (length fd) \<and> length (nsmallest n fd) = min n (length fd)
   \<and> sorted (rev (map pnl (nlargest n fd))) \<and> sorted (map pnl (nsmallest n fd))
   \<and> mset (nlargest n fd) \<subseteq># mset fd \<and> mset (nsmallest n fd) \<subseteq># mset fd
   \<and> (\<forall>x y. x \<in># mset fd - mset (nlargest n fd) \<and> y \<in> set (nlargest n fd) \<longrightarrow> pnl x \<le> pnl y)
   \<and> (\<forall>x y. x \<in># mset fd - mset (nsmallest n fd) \<and> y \<in> set (nsmallest n fd) \<longrightarrow> pnl y \<le> pnl x)
   \<and> (\<forall>v. prefix (filter (\<lambda>r. pnl r = v) (nlargest n fd)) (filter (\<lambda>r. pnl r = v) fd))
   \<and> (\<forall>v. prefix (filter (\<lambda>r. pnl r = v) (nsmallest n fd)) (filter (\<lambda>r. pnl r = v) fd))
   \<and> (length fd \<le> n \<longrightarrow> mset (nlargest n fd) = mset fd \<and> mset (nsmallest n fd) = mset fd)
   \<and> best_trades fd = map ranked_cols (nlargest 10 fd)
   \<and> worst_trades fd = map ranked_cols (nsmallest 10 fd)
   \<and> length (best_trades fd) \<le> 10 \<and> length (worst_trades fd) \<le> 10"
proof -
  let ?g = "\<lambda>r. - pnl r"
  have l: "length (nlargest n fd) = min n (length fd)" "length (nsmallest n fd) = min n (length fd)"
    by (simp_all add: nlargest_def nsmallest_def)
  have "sorted (map ?g (nlargest n fd))"
    unfolding nlargest_def by (rule take_sort_key_sorted)
  then have "sorted (map uminus (map pnl (nlargest n fd)))"
    by (simp add: comp_def)
  then have s1: "sorted (rev (map pnl (nlargest n fd)))"
    by (simp only: sorted_map_uminus)
  have s2: "sorted (map pnl (nsmallest n fd))"
    unfolding nsmallest_def by (rule take_sort_key_sorted)
  have m: "mset (nlargest n fd) \<subseteq># mset fd" "mset (nsmallest n fd) \<subseteq># mset fd"
    unfolding nlargest_def nsmallest_def by (rule take_sort_key_subset)+
  have r1: "pnl x \<le> pnl y"
    if "x \<in># mset fd - mset (nlargest n fd)" "y \<in> set (nlargest n fd)" for x y
    using take_sort_key_rest [of x fd n ?g y] that by (simp add: nlargest_def)
  have r2: "pnl y \<le> pnl x"
    if "x \<in># mset fd - mset (nsmallest n fd)" "y \<in> set (nsmallest n fd)" for x y
    using take_sort_key_rest [of x fd n pnl y] that by (simp add: nsmallest_def)
  have t1: "prefix (filter (\<lambda>r. pnl r = v) (nlargest n fd)) (filter (\<lambda>r. pnl r = v) fd)" for v
    using take_sort_key_ties [of ?g "- v" n fd] by (simp add: nlargest_def)
  have t2: "prefix (filter (\<lambda>r. pnl r = v) (nsmallest n fd)) (filter (\<lambda>r. pnl r = v) fd)" for v
    unfolding nsmallest_def by (rule take_sort_key_ties)
  have a: "length fd \<le> n \<longrightarrow> mset (nlargest n fd) = mset fd \<and> mset (nsmallest n fd) = mset fd"
    by (simp add: nlargest_def nsmallest_def)
  have b: "length (best_trades fd) \<le> 10" "length (worst_trades fd) \<le> 10"
    by (simp_all add: best_trades_def worst_trades_def nlargest_def nsmallest_def)
  show ?thesis
    using l s1 s2 m r1 r2 t1 t2 a b
    unfolding best_trades_def worst_trades_def by blast
qed

theorem top_n_by_pnl_witness:
  "length ex_store \<le> 10 \<and> mset (nlargest 10 ex_store) = mset ex_store
   \<and> map pnl (nlargest 10 ex_store) = [200, 100, - 20, - 50]
   \<and> ex_store ! 1 \<in># mset ex_store - mset (nlargest 2 ex_store)
   \<and> ex_store ! 2 \<in> set (nlargest 2 ex_store)
   \<and> pnl (ex_store ! 1) \<le> pnl (ex_store ! 2)
   \<and> map pnl (nlargest 8 ex_store20) = [30, 21, 14, 12, 11, 9, 7, 7]
   \<and> map open_day (filter (\<lambda>r. pnl r = 7) (nlargest 8 ex_store20)) = [4, 5]
   \<and> map open_day (filter (\<lambda>r. pnl r = 7) ex_store20) = [4, 5, 17]
   \<and> prefix (filter (\<lambda>r. pnl r = 7) (nlargest 8 ex_store20)) (filter (\<lambda>r. pnl r = 7) ex_store20)"
proof -
  have len: "length ex_store \<le> 10"
    by (simp add: ex4_pnl)
  have y: "ex_store ! 2 \<in> set (nlargest 2 ex_store)"
    by (simp add: ex4_best)
  from top_n_by_pnl [of 10 ex_store] len
  have a: "mset (nlargest 10 ex_store) = mset ex_store"
    by blast
  from top_n_by_pnl [of 2 ex_store] ex4_rest y
  have b: "pnl (ex_store ! 1) \<le> pnl (ex_store ! 2)"
    by blast
  from top_n_by_pnl [of 8 ex_store20]
  have c: "prefix (filter (\<lambda>r. pnl r = 7) (nlargest 8 ex_store20)) (filter (\<lambda>r. pnl r = 7) ex_store20)"
    by blast
  show ?thesis
    using len a ex4_all ex4_rest y b ex20_sevens c by blast
qed


text \<open>
  Claim C8. For every subset of at least 20 rows, every \<open>pnl\<close> among the ten best
  trades is at least every \<open>pnl\<close> among the ten worst: the smallest of the best is at
  least the largest of the worst. It holds with or without ties at the boundary.
\<close>

theorem best_ten_above_worst_ten:
  "20 \<le> length fd \<Longrightarrow>
     (\<forall>b \<in> set (best_trades fd). \<forall>w \<in> set (worst_trades fd). rk_pnl w \<le> rk_pnl b)
     \<and> Max (rk_pnl ` set (worst_trades fd)) \<le> Min (rk_pnl ` set (best_trades fd))"
proof -
  assume len: "20 \<le> length fd"
  have rk: "rk_pnl (ranked_cols r) = pnl r" for r
    by (simp add: ranked_cols_def)
  have le: "pnl w \<le> pnl b" if "b \<in> set (nlargest 10 fd)" "w \<in> set (nsmallest 10 fd)" for b w
    using best_ge_worst [of 10 fd b w] len that by simp
  have "length (nlargest 10 fd) = 10" "length (nsmallest 10 fd) = 10"
    using len by (simp_all add: nlargest_def nsmallest_def)
  then have ne: "nlargest 10 fd \<noteq> []" "nsmallest 10 fd \<noteq> []"
    by auto
  have "\<forall>b \<in> set (best_trades fd). \<forall>w \<in> set (worst_trades fd). rk_pnl w \<le> rk_pnl b"
    by (auto simp: best_trades_def worst_trades_def rk le)
  moreover from this have "Max (rk_pnl ` set (worst_trades fd)) \<le> Min (rk_pnl ` set (best_trades fd))"
    using ne by (simp add: best_trades_def worst_trades_def)
  ultimately show ?thesis by blast
qed


theorem best_ten_above_worst_ten_witness:
  "20 \<le> length ex_store20
   \<and> map rk_pnl (best_trades ex_store20) = [30, 21, 14, 12, 11, 9, 7, 7, 7, 5]
   \<and> map rk_pnl (worst_trades ex_store20) = [-20, -15, -8, -6, -3, -1, 0, 2, 3, 4]
   \<and> Max (rk_pnl ` set (worst_trades ex_store20)) = 4
   \<and> Min (rk_pnl ` set (best_trades ex_store20)) = 5
   \<and> Max (rk_pnl ` set (worst_trades ex_store20)) \<le> Min (rk_pnl ` set (best_trades ex_store20))"
proof -
  have len: "20 \<le> length ex_store20"
    by (simp add: ex_store20_def ex_days_pnls20_def load_data_def)
  have rk: "rk_pnl \<circ> ranked_cols = pnl"
    by (rule ext) (simp add: ranked_cols_def)
  have b: "map rk_pnl (best_trades ex_store20) = [30, 21, 14, 12, 11, 9, 7, 7, 7, 5]"
    by (simp add: best_trades_def rk ex20_best)
  have w: "map rk_pnl (worst_trades ex_store20) = [-20, -15, -8, -6, -3, -1, 0, 2, 3, 4]"
    by (simp add: worst_trades_def rk ex20_worst)
  have "rk_pnl ` set (worst_trades ex_store20) = set [-20, -15, -8, -6, -3, -1, 0, 2, 3, 4]"
    unfolding w [symmetric] by simp
  then have mx: "Max (rk_pnl ` set (worst_trades ex_store20)) = 4"
    by simp
  have "rk_pnl ` set (best_trades ex_store20) = set [30, 21, 14, 12, 11, 9, 7, 7, 7, 5]"
    unfolding b [symmetric] by simp
  then have mn: "Min (rk_pnl ` set (best_trades ex_store20)) = 5"
    by simp
  show ?thesis
    using len b w mx mn best_ten_above_worst_ten [OF len] by simp
qed





section \<open>Grouped statistics\<close>

lemma sort_values_desc_sorted:
  "sorted (rev (map key (sort_values key False xs)))"
  by (simp add: sort_values_def rev_map [symmetric])


lemma set_sort_values: "set (sort_values key asc xs) = set xs"
  by (simp add: sort_values_def)

lemma groupby_keys: "map fst (groupby key df) = sort (remdups (map key df))"
  by (simp add: groupby_def comp_def)

lemma groupby_keys_sorted: "sorted (map fst (groupby key df))" "distinct (map fst (groupby key df))"
  "set (map fst (groupby key df)) = key ` set df"
  by (simp_all add: groupby_keys)

lemma descending_strategy: "descending_total (strategy_stats fd)"
proof -
  have "map (\<lambda>kr. Total_PnL (snd kr)) (strategy_stats fd)
      = map (\<lambda>kr. Total_PnL (snd kr)) (strategy_sorted fd)"
    by (simp add: strategy_stats_def comp_def)
  then show ?thesis
    unfolding descending_total_def strategy_sorted_def
    by (simp only: sort_values_desc_sorted)
qed

lemma descending_symbol: "descending_total (symbol_stats fd)"
  unfolding descending_total_def symbol_stats_def
  by (rule sort_values_desc_sorted)

lemma keys_map: "map fst (map (\<lambda>kg. (fst kg, h (snd kg))) xs) = map fst xs"
  by (simp add: comp_def)

lemma strategy_keys: "set (map fst (strategy_stats fd)) = type ` set fd"
proof -
  have "map fst (strategy_stats fd) = map fst (strategy_sorted fd)"
    by (simp add: strategy_stats_def comp_def)
  then have "set (map fst (strategy_stats fd)) = fst ` set (strategy_sorted fd)"
    by simp
  also have "\<dots> = set (map fst (groupby type fd))"
    by (simp add: strategy_sorted_def set_sort_values image_image)
  finally show ?thesis
    by (simp only: groupby_keys_sorted)
qed

lemma symbol_keys: "set (map fst (symbol_stats fd)) = symbol ` set fd"
proof -
  have "set (map fst (symbol_stats fd)) = set (map fst (groupby symbol fd))"
    by (simp add: symbol_stats_def set_sort_values image_image)
  then show ?thesis
    by (simp only: groupby_keys_sorted)
qed

lemma status_keys: "map fst (status_stats fd) = sort (remdups (map status fd))"
  unfolding status_stats_def keys_map by (rule groupby_keys)

lemma delta_keys: "map fst (delta_perf fd) = sort (remdups (map delta_category fd))"
  unfolding delta_perf_def keys_map by (rule groupby_keys)

lemma status_strategy_keys:
  "map fst (status_strategy fd) = sort (remdups (map (\<lambda>r. (type r, status r)) fd))"
  unfolding status_strategy_def keys_map by (rule groupby_keys)

text \<open>
  Claim C5, as the specification states it: every grouped table is in descending order of
  the groups' total \<open>pnl\<close>. The status table, the delta category table and the table
  by strategy and status are not sorted after \<open>groupby\<close>; with a losing group whose
  key comes first they are in ascending order of the total.
\<close>

theorem group_order_counterexample:
  "map (\<lambda>kr. (fst kr, Total_PnL (snd kr))) (status_stats ex_store2)
      = [(''closed'', - 50), (''expired'', 100)]
   \<and> \<not> descending_total (status_stats ex_store2)
   \<and> map (\<lambda>kr. (fst kr, Total_PnL (snd kr))) (delta_perf ex_store2)
      = [(''Bearish'', - 50), (''Bullish'', 100)]
   \<and> \<not> descending_total (delta_perf ex_store2)
   \<and> map (\<lambda>kr. (fst kr, Total_PnL (snd kr))) (status_strategy ex_store2)
      = [((''Iron Condor'', ''closed''), - 50), ((''Short Put Spread'', ''expired''), 100)]
   \<and> \<not> descending_total (status_strategy ex_store2)"
  by (simp add: descending_total_def status_stats_def delta_perf_def status_strategy_def
      groupby_def ex2_defs agg_defs)


text \<open>
  Claim C5, amended. The strategy table and the symbol table hold one group for every
  key present and are in descending order of \<open>Total_PnL\<close> (the group's total, rounded
  to two decimals). The status table, the delta category table and the table by strategy
  and status hold one group for every key present, in ascending order of the key.
\<close>

theorem group_order:
  "descending_total (strategy_stats fd) \<and> descending_total (symbol_stats fd)
   \<and> set (map fst (strategy_stats fd)) = type ` set fd
   \<and> set (map fst (symbol_stats fd)) = symbol ` set fd
   \<and> map fst (status_stats fd) = sort (remdups (map status fd))
   \<and> map fst (delta_perf fd) = sort (remdups (map delta_category fd))
   \<and> map fst (status_strategy fd) = sort (remdups (map (\<lambda>r. (type r, status r)) fd))
   \<and> sorted (map fst (status_stats fd)) \<and> sorted (map fst (delta_perf fd))
   \<and> sorted (map fst (status_strategy fd))"
proof -
  have "sorted (map fst (status_stats fd))" "sorted (map fst (delta_perf fd))"
    "sorted (map fst (status_strategy fd))"
    unfolding status_keys delta_keys status_strategy_keys by simp_all
  then show ?thesis
    using descending_strategy [of fd] descending_symbol [of fd] strategy_keys [of fd]
      symbol_keys [of fd] status_keys [of fd] delta_keys [of fd] status_strategy_keys [of fd]
    by blast
qed


section \<open>Portfolio bias\<close>

text \<open>
  Claim C7, as the specification states it, asks for a threshold that can be configured.
  The code's rule takes the subset only and compares with the literal 50: a subset whose
  total delta is 60 is Bullish, where a threshold of 100 would make it Neutral.
\<close>

theorem bias_threshold_counterexample:
  "total_delta (filtered_df closed_only ex_store) = 60
   \<and> bias (filtered_df closed_only ex_store) = ''Bullish''
   \<and> bias_with_threshold 100 (total_delta (filtered_df closed_only ex_store)) = ''Neutral''
   \<and> bias (filtered_df closed_only ex_store)
        \<noteq> bias_with_threshold 100 (total_delta (filtered_df closed_only ex_store))"
  by (simp add: bias_def bias_with_threshold_def total_delta_def series_sum_def ex_defs)


text \<open>
  Claim C7, amended. The bias is Bullish exactly when the sum of \<open>estimated_delta\<close>
  over the subset is greater than 50, Bearish exactly when it is less than -50, and
  Neutral otherwise; the threshold is the constant 50.
\<close>

theorem bias_classification:
  "(bias fd = ''Bullish'' \<longleftrightarrow> total_delta fd > 50)
   \<and> (bias fd = ''Bearish'' \<longleftrightarrow> total_delta fd < - 50)
   \<and> (bias fd = ''Neutral'' \<longleftrightarrow> - 50 \<le> total_delta fd \<and> total_delta fd \<le> 50)
   \<and> total_delta fd = sum_list (map estimated_delta fd)
   \<and> bias fd = bias_with_threshold 50 (total_delta fd)"
  by (auto simp: bias_def bias_with_threshold_def total_delta_def series_sum_def)


theorem bias_classification_witness:
  "total_delta (filtered_df closed_only ex_store) = 60
   \<and> bias (filtered_df closed_only ex_store) = ''Bullish''
   \<and> total_delta [] = 0 \<and> bias [] = ''Neutral''"
  using bias_classification [of "filtered_df closed_only ex_store"] bias_classification [of "[]"]
  by (simp add: total_delta_def series_sum_def ex_defs)

section \<open>Trade log and export\<close>









end
